theory Spec2Isabelle
  imports Main
begin

section \<open>Outgoing message matcher\<close>

text \<open>
  \<^verbatim>\<open>OutgoingMessageManager\<close> keeps its pending sends in the array \<^verbatim>\<open>promises\<close>;
  \<^verbatim>\<open>add\<close> pushes at the end, so the list order is the insertion order.
  The class \<^verbatim>\<open>MessagePromise\<close> is imported from another module: its flag
  \<^verbatim>\<open>isResolved\<close> and its match predicate \<^verbatim>\<open>isSame\<close> are parameters of the
  model (\<open>isRes\<close> and \<open>isSame\<close>).
\<close>

record 'p OutgoingMessageManager =
  promises :: "'p list"

definition add :: "'p OutgoingMessageManager \<Rightarrow> 'p \<Rightarrow> 'p OutgoingMessageManager" where
  "add mgr promise = mgr\<lparr>promises := promises mgr @ [promise]\<rparr>"

text \<open>
  The two \<^verbatim>\<open>for (let i = 0; i < this.promises.length; i += 1)\<close> loops, with the loop
  counter as an argument. \<^verbatim>\<open>findIndex\<close> returns a number (\<open>-1\<close> for no match),
  \<^verbatim>\<open>find\<close> returns the promise or \<^verbatim>\<open>null\<close> (\<open>None\<close>).
\<close>

function findIndex_loop ::
  "('p \<Rightarrow> bool) \<Rightarrow> ('p \<Rightarrow> 'm \<Rightarrow> bool) \<Rightarrow> 'p list \<Rightarrow> 'm \<Rightarrow> bool \<Rightarrow> nat \<Rightarrow> int" where
  "findIndex_loop isRes isSame ps message includeResolved i =
     (if i < length ps then
        (if \<not> includeResolved \<and> isRes (ps ! i)
           then findIndex_loop isRes isSame ps message includeResolved (i + 1)
         else if isSame (ps ! i) message then int i
         else findIndex_loop isRes isSame ps message includeResolved (i + 1))
      else - 1)"
  by pat_completeness auto
termination
  by (relation "measure (\<lambda>(isRes, isSame, ps, message, includeResolved, i). length ps - i)") auto

function find_loop ::
  "('p \<Rightarrow> bool) \<Rightarrow> ('p \<Rightarrow> 'm \<Rightarrow> bool) \<Rightarrow> 'p list \<Rightarrow> 'm \<Rightarrow> bool \<Rightarrow> nat \<Rightarrow> 'p option" where
  "find_loop isRes isSame ps message includeResolved i =
     (if i < length ps then
        (if \<not> includeResolved \<and> isRes (ps ! i)
           then find_loop isRes isSame ps message includeResolved (i + 1)
         else if isSame (ps ! i) message then Some (ps ! i)
         else find_loop isRes isSame ps message includeResolved (i + 1))
      else None)"
  by pat_completeness auto
termination
  by (relation "measure (\<lambda>(isRes, isSame, ps, message, includeResolved, i). length ps - i)") auto

declare findIndex_loop.simps [simp del] find_loop.simps [simp del]

definition findIndex ::
  "('p \<Rightarrow> bool) \<Rightarrow> ('p \<Rightarrow> 'm \<Rightarrow> bool) \<Rightarrow> 'p OutgoingMessageManager \<Rightarrow> 'm \<Rightarrow> bool \<Rightarrow> int" where
  "findIndex isRes isSame mgr message includeResolved =
     findIndex_loop isRes isSame (promises mgr) message includeResolved 0"

definition find_promise ::
  "('p \<Rightarrow> bool) \<Rightarrow> ('p \<Rightarrow> 'm \<Rightarrow> bool) \<Rightarrow> 'p OutgoingMessageManager \<Rightarrow> 'm \<Rightarrow> bool \<Rightarrow> 'p option" where
  "find_promise isRes isSame mgr message includeResolved =
     find_loop isRes isSame (promises mgr) message includeResolved 0"

text \<open>A promise the scan may return: it is not skipped, and it matches the message.\<close>

definition eligible :: "('p \<Rightarrow> bool) \<Rightarrow> ('p \<Rightarrow> 'm \<Rightarrow> bool) \<Rightarrow> 'm \<Rightarrow> bool \<Rightarrow> 'p \<Rightarrow> bool" where
  "eligible isRes isSame message includeResolved p =
     ((includeResolved \<or> \<not> isRes p) \<and> isSame p message)"


section \<open>Dedup cache\<close>

text \<open>
  The class \<^verbatim>\<open>EventCache\<close> is imported by the listeners; its own source is
  missing. The keys are kept in insertion order.
\<close>

type_synonym EventCache = "string list"

text \<open>
  Modelled from the spec: \<^verbatim>\<open>EventCache.find\<close> is missing from the sources;
  \<open>find(key) \<rightarrow> bool\<close> tests membership.
\<close>

definition cache_find :: "EventCache \<Rightarrow> string \<Rightarrow> bool" where
  "cache_find c key = (key \<in> set c)"

text \<open>
  Modelled from the spec: \<^verbatim>\<open>EventCache.add\<close> is missing from the sources;
  \<open>add(key)\<close> inserts, and is idempotent.
\<close>

definition cache_add :: "EventCache \<Rightarrow> string \<Rightarrow> EventCache" where
  "cache_add c key = (if key \<in> set c then c else c @ [key])"



section \<open>Message records\<close>

text \<open>
  The fields of the entity \<^verbatim>\<open>Message\<close> that the listeners read. A date is the value
  of its \<^verbatim>\<open>getTime()\<close> in milliseconds; the date columns and the error column are
  declared \<^verbatim>\<open>nullable: true\<close>, so each is optional (\<open>None\<close> is \<^verbatim>\<open>null\<close>).
\<close>

record Message =
  guid :: string
  dateCreated :: "int option"
  dateDelivered :: "int option"
  dateRead :: "int option"
  dateEdited :: "int option"
  dateRetracted :: "int option"
  isFromMe :: bool
  isSent :: bool
  error :: "int option"

text \<open>A property read of \<^verbatim>\<open>null\<close> or \<^verbatim>\<open>undefined\<close>, or iterating it, throws.\<close>

datatype js_error = TypeError

section \<open>Update classifier\<close>

record MessageState =
  st_dateCreated :: int
  st_dateDelivered :: int
  st_dateRead :: int
  st_dateEdited :: int
  st_dateRetracted :: int

text \<open>
  What the listener does to the outside: \<^verbatim>\<open>super.emit(event, ...args)\<close>,
  \<^verbatim>\<open>messageManager.resolve(entry)\<close> and \<^verbatim>\<open>messageManager.reject(reason, entry)\<close>,
  recorded in the order they happen. The calls of \<^verbatim>\<open>Server().log\<close> in the
  listener are not modelled: none of them can throw or change the listener.
\<close>

datatype listener_effect =
    Emit string "string option" Message
  | Resolve Message
  | Reject string Message

text \<open>
  The listener's fields. \<^verbatim>\<open>notSent\<close> is declared without an initialiser and the
  constructor does not assign it: it is \<^verbatim>\<open>undefined\<close> (\<open>None\<close>) until
  \<^verbatim>\<open>handleOutgoingMessage\<close> assigns it.
\<close>

record PAPIMessageUpdateListener =
  cache :: EventCache
  cacheState :: "string \<rightharpoonup> MessageState"
  notSent :: "string list option"
  effects :: "listener_effect list"

definition new_listener :: "EventCache \<Rightarrow> PAPIMessageUpdateListener" where
  "new_listener c = \<lparr>cache = c, cacheState = Map.empty, notSent = None, effects = []\<rparr>"

text \<open>\<^verbatim>\<open>d ? d.getTime() : 0\<close>: a \<^verbatim>\<open>Date\<close> object is truthy, \<^verbatim>\<open>null\<close> is not.\<close>

definition timeOr0 :: "int option \<Rightarrow> int" where
  "timeOr0 d = (case d of None \<Rightarrow> 0 | Some t \<Rightarrow> t)"

text \<open>
  \<^verbatim>\<open>cacheState\<close> is a plain object (\<^verbatim>\<open>{}\<close>) used as a dictionary, and
  \<^verbatim>\<open>this.cacheState[guid]\<close> also finds what the object inherits. The map holds the
  snapshots the listener has stored; an assignment under the key \<^verbatim>\<open>"__proto__"\<close>
  replaces the object's prototype, and reading that key returns it, so the map holds it
  under that key. For a key without a stored snapshot the read finds: one of the five
  fields of a snapshot that has become the prototype, a number, truthy unless it is 0;
  or a property of \<^verbatim>\<open>Object.prototype\<close>, a function (for \<^verbatim>\<open>"__proto__"\<close> the
  prototype itself), always truthy; or \<^verbatim>\<open>undefined\<close>.
\<close>

definition objectPrototypeNames :: "string list" where
  "objectPrototypeNames =
     [''constructor'', ''__defineGetter__'', ''__defineSetter__'', ''hasOwnProperty'',
      ''__lookupGetter__'', ''__lookupSetter__'', ''isPrototypeOf'', ''propertyIsEnumerable'',
      ''toString'', ''valueOf'', ''__proto__'', ''toLocaleString'']"

definition inheritsTruthy :: "PAPIMessageUpdateListener \<Rightarrow> string \<Rightarrow> bool" where
  "inheritsTruthy l key =
     (case cacheState l ''__proto__'' of
        None \<Rightarrow> key \<in> set objectPrototypeNames
      | Some proto \<Rightarrow>
          if key = ''dateCreated'' then st_dateCreated proto \<noteq> 0
          else if key = ''dateDelivered'' then st_dateDelivered proto \<noteq> 0
          else if key = ''dateRead'' then st_dateRead proto \<noteq> 0
          else if key = ''dateEdited'' then st_dateEdited proto \<noteq> 0
          else if key = ''dateRetracted'' then st_dateRetracted proto \<noteq> 0
          else key \<in> set objectPrototypeNames)"

text \<open>
  \<^verbatim>\<open>getMessageEvent\<close> returns \<^verbatim>\<open>"new-entry"\<close>, \<^verbatim>\<open>"updated-entry"\<close> or
  \<^verbatim>\<open>null\<close>. It reads \<^verbatim>\<open>message.guid\<close> first, which throws when the message is
  \<^verbatim>\<open>null\<close>. When \<^verbatim>\<open>state\<close> is truthy it reads
  \<^verbatim>\<open>message.dateCreated.getTime()\<close> without a test, which throws when the creation
  date is \<^verbatim>\<open>null\<close>. An inherited \<^verbatim>\<open>state\<close> has none of the five fields: each
  comparison is with \<^verbatim>\<open>undefined\<close> and is false.
\<close>

definition getMessageEvent ::
  "PAPIMessageUpdateListener \<Rightarrow> Message option \<Rightarrow> js_error + string option" where
  "getMessageEvent l msg =
     (case msg of
        None \<Rightarrow> Inl TypeError
      | Some message \<Rightarrow>
          if \<not> cache_find (cache l) (guid message) then Inr (Some ''new-entry'')
          else
            (case cacheState l (guid message) of
               None \<Rightarrow>
                 if \<not> inheritsTruthy l (guid message) then Inr None
                 else (case dateCreated message of
                         None \<Rightarrow> Inl TypeError
                       | Some created \<Rightarrow> Inr None)
             | Some state \<Rightarrow>
                 (case dateCreated message of
                    None \<Rightarrow> Inl TypeError
                  | Some created \<Rightarrow>
                      if created > st_dateCreated state then Inr (Some ''updated-entry'')
                      else if timeOr0 (dateDelivered message) > st_dateDelivered state
                        then Inr (Some ''updated-entry'')
                      else if timeOr0 (dateRead message) > st_dateRead state
                        then Inr (Some ''updated-entry'')
                      else if timeOr0 (dateEdited message) > st_dateEdited state
                        then Inr (Some ''updated-entry'')
                      else if timeOr0 (dateRetracted message) > st_dateRetracted state
                        then Inr (Some ''updated-entry'')
                      else Inr None)))"

text \<open>
  \<^verbatim>\<open>processMessageEvent\<close>: the guid is added to the cache before the snapshot is
  built, so a throw while building it leaves the guid in the cache.
\<close>

definition processMessageEvent ::
  "PAPIMessageUpdateListener \<Rightarrow> Message option
     \<Rightarrow> (js_error + string option) \<times> PAPIMessageUpdateListener" where
  "processMessageEvent l msg =
     (case getMessageEvent l msg of
        Inl e \<Rightarrow> (Inl e, l)
      | Inr None \<Rightarrow> (Inr None, l)
      | Inr (Some event) \<Rightarrow>
          (case msg of
             None \<Rightarrow> (Inl TypeError, l)
           | Some message \<Rightarrow>
               let l1 = (if event = ''new-entry''
                         then l\<lparr>cache := cache_add (cache l) (guid message)\<rparr> else l)
               in (case dateCreated message of
                     None \<Rightarrow> (Inl TypeError, l1)
                   | Some created \<Rightarrow>
                       (Inr (Some event),
                        l1\<lparr>cacheState := (cacheState l1)(guid message \<mapsto>
                             \<lparr>st_dateCreated = created,
                              st_dateDelivered = timeOr0 (dateDelivered message),
                              st_dateRead = timeOr0 (dateRead message),
                              st_dateEdited = timeOr0 (dateEdited message),
                              st_dateRetracted = timeOr0 (dateRetracted message)\<rparr>)\<rparr>))))"







subsection \<open>Push notifications\<close>

text \<open>
  How a loop body or a function ends: it falls through (\<open>Done\<close>), executes
  \<^verbatim>\<open>return\<close> (\<open>Returned\<close>), or throws (\<open>Threw\<close>).
\<close>

datatype completion = Done | Returned | Threw js_error

text \<open>
  The first loop of \<^verbatim>\<open>handleOutgoingMessage\<close>, over \<^verbatim>\<open>toEmit\<close>. Its
  \<^verbatim>\<open>return\<close> leaves the whole function, not only the iteration.
\<close>

fun emitLoop ::
  "PAPIMessageUpdateListener \<Rightarrow> Message list \<Rightarrow> completion \<times> PAPIMessageUpdateListener" where
  "emitLoop l [] = (Done, l)"
| "emitLoop l (entry # rest) =
     (case processMessageEvent l (Some entry) of
        (Inl e, l1) \<Rightarrow> (Threw e, l1)
      | (Inr None, l1) \<Rightarrow> (Returned, l1)
      | (Inr (Some event), l1) \<Rightarrow>
          emitLoop (l1\<lparr>effects := effects l1
                        @ [Resolve entry, Emit event (Some ''outgoing-message'') entry]\<rparr>) rest)"

text \<open>
  The second loop, over the one-element array \<^verbatim>\<open>[lookbackErrored]\<close>, whose element
  may be \<^verbatim>\<open>null\<close>. \<open>rejectOk\<close> is the boolean that \<^verbatim>\<open>messageManager.reject\<close>
  returns. \<^verbatim>\<open>entry.contentString()\<close> in the log line guards the fields it reads,
  except \<^verbatim>\<open>dateCreated\<close>, which \<^verbatim>\<open>processMessageEvent\<close> has read before.
\<close>

fun errorLoop ::
  "(Message \<Rightarrow> bool) \<Rightarrow> PAPIMessageUpdateListener \<Rightarrow> Message option list
     \<Rightarrow> completion \<times> PAPIMessageUpdateListener" where
  "errorLoop rejectOk l [] = (Done, l)"
| "errorLoop rejectOk l (entry # rest) =
     (case processMessageEvent l entry of
        (Inl e, l1) \<Rightarrow> (Threw e, l1)
      | (Inr None, l1) \<Rightarrow> (Returned, l1)
      | (Inr (Some event), l1) \<Rightarrow>
          (case entry of
             None \<Rightarrow> (Threw TypeError, l1)
           | Some m \<Rightarrow>
               let l2 = l1\<lparr>effects := effects l1 @ [Reject ''message-send-error'' m]\<rparr>;
                   l3 = (if \<not> rejectOk m
                         then l2\<lparr>effects := effects l2
                                  @ [Emit ''message-send-error'' (Some ''outgoing-message'') m]\<rparr>
                         else l2)
               in errorLoop rejectOk l3 rest))"

text \<open>
  \<^verbatim>\<open>handleOutgoingMessage(messageGUID, isFromMe, isSent)\<close>. \<open>repo\<close> is
  \<^verbatim>\<open>this.repo.getMessage(guid, true)\<close>, \<^verbatim>\<open>null\<close> for an unknown guid;
  \<open>isNotEmpty\<close> is the imported helper, applied to the string \<^verbatim>\<open>unsentIds\<close>
  (when it answers no, \<^verbatim>\<open>lookbackMessage\<close> stays \<^verbatim>\<open>undefined\<close>).
  \<open>sent\<close> is the parameter \<^verbatim>\<open>isSent\<close> of the notification; \<open>isSent\<close>
  is the field of the record. The statements that throw on \<^verbatim>\<open>null\<close> or
  \<^verbatim>\<open>undefined\<close> are, in order: \<^verbatim>\<open>newUnsent.guid\<close>,
  \<^verbatim>\<open>for (const i of this.notSent)\<close>, \<^verbatim>\<open>lookbackMessage.isSent\<close> and
  \<^verbatim>\<open>lookbackUnsent.guid\<close>.
\<close>

definition handleOutgoingMessage ::
  "(string \<Rightarrow> Message option) \<Rightarrow> (string \<Rightarrow> bool) \<Rightarrow> (Message \<Rightarrow> bool)
     \<Rightarrow> PAPIMessageUpdateListener \<Rightarrow> string \<Rightarrow> bool \<Rightarrow> bool
     \<Rightarrow> completion \<times> PAPIMessageUpdateListener" where
  "handleOutgoingMessage repo isNotEmpty rejectOk l messageGUID fromMe sent =
     (let newMessage = repo messageGUID;
          newSent = (if sent then newMessage else None);
          newUnsent = (if \<not> sent then newMessage else None)
      in (case newUnsent of
            None \<Rightarrow> (Threw TypeError, l)
          | Some unsent \<Rightarrow>
             (case notSent l of
                None \<Rightarrow> (Threw TypeError, l)
              | Some ids \<Rightarrow>
                 (let unsentIds = foldl (\<lambda>u i. if u \<noteq> i then i else u) (guid unsent) ids;
                      lookbackMessage = (if isNotEmpty unsentIds then repo unsentIds else None)
                  in (case lookbackMessage of
                        None \<Rightarrow> (Threw TypeError, l)
                      | Some lookback \<Rightarrow>
                         (let code = (case error lookback of None \<Rightarrow> 0 | Some c \<Rightarrow> c);
                              lookbackSent =
                                (if isSent lookback \<and> code = 0 then Some lookback else None);
                              lookbackErrored = (if code > 0 then Some lookback else None);
                              lookbackUnsent =
                                (if \<not> isSent lookback \<and> code = 0 then Some lookback else None)
                          in (case lookbackUnsent of
                                None \<Rightarrow> (Threw TypeError, l)
                              | Some lu \<Rightarrow>
                                 (let l1 = l\<lparr>notSent := Some [guid lu]\<rparr>;
                                      toEmit = (case newSent of None \<Rightarrow> [] | Some m \<Rightarrow> [m])
                                             @ (case lookbackSent of None \<Rightarrow> [] | Some m \<Rightarrow> [m])
                                  in (case emitLoop l1 toEmit of
                                        (Done, l2) \<Rightarrow> errorLoop rejectOk l2 [lookbackErrored]
                                      | (c, l2) \<Rightarrow> (c, l2))))))))))"

text \<open>\<^verbatim>\<open>handleOutgoingMessageUpdate\<close>: classify, resolve, emit with the entry alone.\<close>

definition handleOutgoingMessageUpdate ::
  "(string \<Rightarrow> Message option) \<Rightarrow> PAPIMessageUpdateListener \<Rightarrow> string \<Rightarrow> bool \<Rightarrow> bool
     \<Rightarrow> completion \<times> PAPIMessageUpdateListener" where
  "handleOutgoingMessageUpdate repo l messageGUID fromMe sent =
     (case processMessageEvent l (repo messageGUID) of
        (Inl e, l1) \<Rightarrow> (Threw e, l1)
      | (Inr None, l1) \<Rightarrow> (Returned, l1)
      | (Inr (Some event), l1) \<Rightarrow>
          (case repo messageGUID of
             None \<Rightarrow> (Threw TypeError, l1)
           | Some entry \<Rightarrow>
               (Done, l1\<lparr>effects := effects l1 @ [Resolve entry, Emit event None entry]\<rparr>)))"

text \<open>
  \<^verbatim>\<open>onReceiveMessageUpdate(messageGUID, isSent, isFromMe)\<close>: an \<^verbatim>\<open>await\<close> of a
  call that throws rethrows, so the update handler runs only after
  \<^verbatim>\<open>handleOutgoingMessage\<close> has completed normally.
\<close>

definition onReceiveMessageUpdate ::
  "(string \<Rightarrow> Message option) \<Rightarrow> (string \<Rightarrow> bool) \<Rightarrow> (Message \<Rightarrow> bool)
     \<Rightarrow> PAPIMessageUpdateListener \<Rightarrow> string \<Rightarrow> bool \<Rightarrow> bool
     \<Rightarrow> completion \<times> PAPIMessageUpdateListener" where
  "onReceiveMessageUpdate repo isNotEmpty rejectOk l messageGUID sent fromMe =
     (if fromMe then
        (case handleOutgoingMessage repo isNotEmpty rejectOk l messageGUID fromMe sent of
           (Threw e, l1) \<Rightarrow> (Threw e, l1)
         | (c, l1) \<Rightarrow> handleOutgoingMessageUpdate repo l1 messageGUID fromMe sent)
      else
        (case processMessageEvent l (repo messageGUID) of
           (Inl e, l1) \<Rightarrow> (Threw e, l1)
         | (Inr None, l1) \<Rightarrow> (Returned, l1)
         | (Inr (Some event), l1) \<Rightarrow>
             (case repo messageGUID of
                None \<Rightarrow> (Threw TypeError, l1)
              | Some newMessage \<Rightarrow>
                  (Done, l1\<lparr>effects := effects l1
                              @ [Emit event (Some ''incoming-message'') newMessage]\<rparr>))))"


section \<open>Helper service\<close>

text \<open>
  \<^verbatim>\<open>BlueBubblesHelperService\<close>. The sockets themselves are not modelled: what the
  service does to the outside is recorded in \<open>trace\<close>, in the order it happens.
  \<open>Log\<close> is a call of \<^verbatim>\<open>Server().log\<close> (the fixed part of its message),
  \<open>Listen\<close> is \<^verbatim>\<open>this.server.listen(port, ...)\<close>, \<open>EmitTyping\<close> is
  \<^verbatim>\<open>Server().emitMessage(TYPING_INDICATOR, {display, guid}, "normal", false)\<close>,
  \<open>MessageUpdate\<close> is the call of the listener's \<^verbatim>\<open>onReceiveMessageUpdate(data.guid)\<close>,
  \<open>Fulfilled\<close> and \<open>Rejected\<close> are the settling of a transaction's promise.
\<close>

datatype service_effect =
    Log string
  | Listen
  | EmitTyping bool "string option"
  | MessageUpdate "string option"
  | Fulfilled string "string option" "string option"
  | Rejected string "string option"

record TypingState =
  lastSeen :: int
  lastValue :: bool

record TransactionPromise =
  transactionId :: string

record HelperService =
  restartCounter :: int
  transactionManager :: "TransactionPromise list"
  typingCache :: "string \<rightharpoonup> TypingState"
  trace :: "service_effect list"

text \<open>The constructor: \<^verbatim>\<open>restartCounter = 0\<close>, a new transaction manager, \<^verbatim>\<open>typingCache = {}\<close>.\<close>

definition new_service :: HelperService where
  "new_service = \<lparr>restartCounter = 0, transactionManager = [],
                    typingCache = Map.empty, trace = []\<rparr>"

definition log :: "string \<Rightarrow> HelperService \<Rightarrow> HelperService" where
  "log msg s = s\<lparr>trace := trace s @ [Log msg]\<rparr>"

subsection \<open>Restarting the listening socket\<close>

text \<open>
  \<^verbatim>\<open>stop()\<close> destroys the helper socket and closes the server, which leaves the
  fields of the model as they are (its second log line, written only while a server is
  listening, is not recorded). \<^verbatim>\<open>start()\<close> stops what is running, configures a
  new server and listens. The callback of \<^verbatim>\<open>listen\<close>, called once the server is listening, is \<open>onListening\<close>;
  the handler of the server's \<^verbatim>\<open>"error"\<close> event, installed by
  \<^verbatim>\<open>configureServer\<close>, is \<open>onServerError\<close>.
\<close>

definition stop :: "HelperService \<Rightarrow> HelperService" where
  "stop s = log ''Stopping Private API Helper...'' s"

definition start :: "HelperService \<Rightarrow> HelperService" where
  "start s =
     (let s1 = stop s;
          s2 = log ''Starting Private API Helper...'' s1;
          s3 = log ''Starting Socket server on port'' s2
      in s3\<lparr>trace := trace s3 @ [Listen]\<rparr>)"

definition onListening :: "HelperService \<Rightarrow> HelperService" where
  "onListening s = s\<lparr>restartCounter := 0\<rparr>"

definition onServerError :: "string \<Rightarrow> HelperService \<Rightarrow> HelperService" where
  "onServerError err s =
     (let s1 = log ''An error occured in the TCP Socket! Restarting'' s;
          s2 = log err s1
      in if restartCounter s2 \<le> 5
         then start (s2\<lparr>restartCounter := restartCounter s2 + 1\<rparr>)
         else log ''Max restart count reached for Private API listener...'' s2)"

text \<open>The events of the listening socket, and a run of the service over a sequence of them.\<close>

datatype server_event = ServerError string | Listening

fun serverStep :: "HelperService \<Rightarrow> server_event \<Rightarrow> HelperService" where
  "serverStep s (ServerError err) = onServerError err s"
| "serverStep s Listening = onListening s"

definition serverRun :: "HelperService \<Rightarrow> server_event list \<Rightarrow> HelperService" where
  "serverRun s evs = foldl serverStep s evs"

definition restarts :: "HelperService \<Rightarrow> nat" where
  "restarts s = length (filter (\<lambda>e. e = Listen) (trace s))"

subsection \<open>Typing indicators\<close>

text \<open>
  \<^verbatim>\<open>typingCache\<close> is a plain object used as a dictionary.
  \<^verbatim>\<open>Object.keys(this.typingCache).includes(guid)\<close> asks for an own key. An
  assignment under the key \<^verbatim>\<open>"__proto__"\<close> replaces the object's prototype and
  creates no own key: the map holds the prototype under that key, and
  \<^verbatim>\<open>Object.keys\<close> never lists it.
\<close>

definition hasOwnKey :: "(string \<rightharpoonup> 'a) \<Rightarrow> string \<Rightarrow> bool" where
  "hasOwnKey obj key = (key \<noteq> ''__proto__'' \<and> obj key \<noteq> None)"

text \<open>
  \<^verbatim>\<open>handleTypingIndicator(event, guid)\<close>; \<open>now\<close> is the value that
  \<^verbatim>\<open>new Date().getTime()\<close> reads.
\<close>

definition handleTypingIndicator ::
  "HelperService \<Rightarrow> string \<Rightarrow> string \<Rightarrow> int \<Rightarrow> HelperService" where
  "handleTypingIndicator s event g now =
     (let display = (event = ''started-typing'');
          shouldEmit =
            (if \<not> hasOwnKey (typingCache s) g then True
             else
               (case typingCache s g of
                  None \<Rightarrow> True
                | Some entry \<Rightarrow>
                    if lastValue entry \<noteq> display then True
                    else if now - lastSeen entry > 5000 then True
                    else False))
      in if shouldEmit
         then s\<lparr>typingCache := (typingCache s)(g \<mapsto> \<lparr>lastSeen = now, lastValue = display\<rparr>),
                trace := trace s @ [EmitTyping display (Some g)]\<rparr>
         else s)"






subsection \<open>Transaction correlator\<close>

text \<open>
  The classes \<^verbatim>\<open>TransactionManager\<close> and \<^verbatim>\<open>TransactionPromise\<close> are imported
  by the service; the service itself only calls \<^verbatim>\<open>add\<close>, \<^verbatim>\<open>findIndex\<close>,
  \<^verbatim>\<open>promises[idx].resolve\<close> and \<^verbatim>\<open>promises[idx].reject\<close>.
\<close>

text \<open>
  Modelled from the spec: \<^verbatim>\<open>TransactionManager.add\<close> is missing from the sources;
  \<open>add(txn)\<close> registers an outstanding transaction keyed by its correlation id.
\<close>

definition tm_add :: "TransactionPromise list \<Rightarrow> TransactionPromise \<Rightarrow> TransactionPromise list" where
  "tm_add ps t = ps @ [t]"

text \<open>
  Modelled from the spec: \<^verbatim>\<open>TransactionManager.findIndex\<close> is missing from the
  sources; \<open>findIndex(id)\<close> locates the transaction with that correlation id. The
  caller tests \<^verbatim>\<open>idx >= 0\<close>: no match is \<open>-1\<close>.
\<close>

fun tm_findIndex :: "TransactionPromise list \<Rightarrow> string \<Rightarrow> int" where
  "tm_findIndex [] tid = - 1"
| "tm_findIndex (t # ts) tid =
     (if transactionId t = tid then 0
      else (let i = tm_findIndex ts tid in if i < 0 then - 1 else i + 1))"

text \<open>
  Modelled from the spec: what settling does to the correlator is missing from the
  sources; a transaction, once fulfilled or rejected, is removed from the correlator
  (destroyed on its first terminal transition).
\<close>

definition tm_remove :: "TransactionPromise list \<Rightarrow> nat \<Rightarrow> TransactionPromise list" where
  "tm_remove ps idx = take idx ps @ drop (Suc idx) ps"

text \<open>
  Modelled from the spec: \<^verbatim>\<open>TransactionPromise.resolve\<close> is missing from the sources;
  the transaction is fulfilled with the success payload and removed.
\<close>

definition promise_resolve ::
  "HelperService \<Rightarrow> nat \<Rightarrow> string option \<Rightarrow> string option \<Rightarrow> HelperService" where
  "promise_resolve s idx ident payload =
     s\<lparr>transactionManager := tm_remove (transactionManager s) idx,
       trace := trace s @ [Fulfilled (transactionId (transactionManager s ! idx)) ident payload]\<rparr>"

text \<open>
  Modelled from the spec: \<^verbatim>\<open>TransactionPromise.reject\<close> is missing from the sources;
  the transaction is rejected with the error payload and removed.
\<close>

definition promise_reject :: "HelperService \<Rightarrow> nat \<Rightarrow> string option \<Rightarrow> HelperService" where
  "promise_reject s idx err =
     s\<lparr>transactionManager := tm_remove (transactionManager s) idx,
       trace := trace s @ [Rejected (transactionId (transactionManager s ! idx)) err]\<rparr>"

subsection \<open>Inbound frames\<close>

text \<open>
  The fields of a decoded frame that the data handler reads; an absent field is
  \<open>None\<close>. A string is truthy when it is present and not empty.
\<close>

record HelperFrame =
  f_transactionId :: "string option"
  f_identifier :: "string option"
  f_data :: "string option"
  f_error :: "string option"
  f_event :: "string option"
  f_guid :: "string option"

definition truthy :: "string option \<Rightarrow> bool" where
  "truthy v = (case v of None \<Rightarrow> False | Some x \<Rightarrow> x \<noteq> [])"

definition orEmpty :: "string option \<Rightarrow> string" where
  \<comment> \<open>\<^verbatim>\<open>v ?? ""\<close>\<close>
  "orEmpty v = (case v of None \<Rightarrow> [] | Some x \<Rightarrow> x)"

text \<open>
  The body of the loop after a successful decode: a frame with a transaction id settles
  the pending transaction, a frame with an event is routed by its name. \<open>isNotEmpty\<close>
  is the imported helper, applied to the error payload. A typing frame without a guid
  passes \<^verbatim>\<open>undefined\<close>: no key of the cache equals it, so the handler emits, and
  the cache is written under the key \<^verbatim>\<open>"undefined"\<close>.
\<close>

definition dispatch :: "(string \<Rightarrow> bool) \<Rightarrow> int \<Rightarrow> HelperService \<Rightarrow> HelperFrame \<Rightarrow> HelperService" where
  "dispatch isNotEmpty now s d =
     (if truthy (f_transactionId d) then
        (let idx = tm_findIndex (transactionManager s) (orEmpty (f_transactionId d))
         in if idx \<ge> 0 then
              (if isNotEmpty (orEmpty (f_error d))
               then promise_reject s (nat idx) (f_error d)
               else promise_resolve s (nat idx) (f_identifier d) (f_data d))
            else s)
      else if truthy (f_event d) then
        (if f_event d = Some ''ping'' then log ''Private API Helper connected!'' s
         else if f_event d = Some ''started-typing'' \<or> f_event d = Some ''stopped-typing'' then
           (case f_guid d of
              Some g \<Rightarrow> handleTypingIndicator s (orEmpty (f_event d)) g now
            | None \<Rightarrow>
                s\<lparr>typingCache := (typingCache s)(''undefined'' \<mapsto>
                       \<lparr>lastSeen = now, lastValue = (f_event d = Some ''started-typing'')\<rparr>),
                  trace := trace s @ [EmitTyping (f_event d = Some ''started-typing'') None]\<rparr>)
         else if f_event d = Some ''message-update'' then
           s\<lparr>trace := trace s @ [MessageUpdate (f_guid d)]\<rparr>
         else s)
      else s)"

text \<open>\<^verbatim>\<open>String(eventRaw).split("\n")\<close>: the result has one more piece than there are newlines.\<close>

fun split_newline :: "string \<Rightarrow> string list" where
  "split_newline [] = [[]]"
| "split_newline (c # cs) =
     (if c = CHR 0x0A then [] # split_newline cs
      else (case split_newline cs of
              [] \<Rightarrow> [[c]]
            | piece # pieces \<Rightarrow> (c # piece) # pieces))"

text \<open>\<^verbatim>\<open>[...new Set(eventData)]\<close>: each distinct frame once, in the order of first occurrence.\<close>

fun uniqueFrom :: "string list \<Rightarrow> string list \<Rightarrow> string list" where
  "uniqueFrom seen [] = []"
| "uniqueFrom seen (x # xs) =
     (if x \<in> set seen then uniqueFrom seen xs else x # uniqueFrom (seen @ [x]) xs)"

definition uniqueEvents :: "string list \<Rightarrow> string list" where
  "uniqueEvents eventData = uniqueFrom [] eventData"

text \<open>
  \<^verbatim>\<open>!event || event.trim().length === 0\<close>: the frame is empty or consists of white
  space (of the characters a \<open>char\<close> can hold: tab, line feed, vertical tab, form feed,
  carriage return, space and no-break space).
\<close>

definition isWhiteSpace :: "char \<Rightarrow> bool" where
  "isWhiteSpace c = (c \<in> set [CHR 0x09, CHR 0x0A, CHR 0x0B, CHR 0x0C, CHR 0x0D, CHR 0x20, CHR 0xA0])"

definition isBlank :: "string \<Rightarrow> bool" where
  "isBlank event = list_all isWhiteSpace event"

text \<open>
  The loop over \<^verbatim>\<open>uniqueEvents\<close>. \<open>parse\<close> is \<^verbatim>\<open>JSON.parse\<close>: \<open>None\<close> when it
  throws, \<open>Some None\<close> when the frame decodes to \<^verbatim>\<open>null\<close>, \<open>Some (Some d)\<close>
  otherwise. A blank frame ends its iteration with \<^verbatim>\<open>continue\<close>; a frame that does
  not decode, or decodes to \<^verbatim>\<open>null\<close>, ends the handler with \<^verbatim>\<open>return\<close>.
\<close>

fun frameLoop ::
  "(string \<Rightarrow> HelperFrame option option) \<Rightarrow> (string \<Rightarrow> bool) \<Rightarrow> int
     \<Rightarrow> HelperService \<Rightarrow> string list \<Rightarrow> HelperService" where
  "frameLoop parse isNotEmpty now s [] = s"
| "frameLoop parse isNotEmpty now s (event # rest) =
     (if event = [] \<or> isBlank event then frameLoop parse isNotEmpty now s rest
      else
        (let s1 = log ''Received data from BlueBubblesHelper'' s
         in (case parse event of
               None \<Rightarrow> log ''Failed to decode BlueBubblesHelper data!'' s1
             | Some None \<Rightarrow> log ''BlueBubblesHelper sent null data'' s1
             | Some (Some d) \<Rightarrow> frameLoop parse isNotEmpty now (dispatch isNotEmpty now s1 d) rest)))"

text \<open>The handler of the socket's \<^verbatim>\<open>"data"\<close> event; \<open>None\<close> is a \<^verbatim>\<open>null\<close> read.\<close>

definition onData ::
  "(string \<Rightarrow> HelperFrame option option) \<Rightarrow> (string \<Rightarrow> bool) \<Rightarrow> int
     \<Rightarrow> HelperService \<Rightarrow> string option \<Rightarrow> HelperService" where
  "onData parse isNotEmpty now s eventRaw =
     (case eventRaw of
        None \<Rightarrow> log ''Received null data from BlueBubblesHelper!'' s
      | Some raw \<Rightarrow>
          frameLoop parse isNotEmpty now s (uniqueEvents (split_newline raw)))"

section \<open>Polling listener for incoming messages\<close>

text \<open>
  \<^verbatim>\<open>IncomingMessageListener.getEntries(after, before)\<close>. The query handed to
  \<^verbatim>\<open>repo.getMessages\<close> is a record of its four arguments, the \<^verbatim>\<open>where\<close> clause
  as pairs of statement and bound value; \<open>repo\<close> answers it with the rows.
  \<open>getCacheName\<close> is the imported helper that computes a row's cache key.
\<close>

record MessageQuery =
  q_after :: int
  q_before :: int
  q_withChats :: bool
  q_where :: "(string \<times> int) list"

datatype poll_effect = CacheAdd string | EmitEntry string Message

record IncomingMessageListener =
  il_cache :: EventCache
  il_trace :: "poll_effect list"

definition entryStep ::
  "(Message \<Rightarrow> string) \<Rightarrow> IncomingMessageListener \<Rightarrow> Message \<Rightarrow> IncomingMessageListener" where
  "entryStep getCacheName l entry =
     (let cacheName = getCacheName entry
      in if cache_find (il_cache l) cacheName then l
         else l\<lparr>il_cache := cache_add (il_cache l) cacheName,
                il_trace := il_trace l @ [CacheAdd cacheName, EmitEntry ''new-entry'' entry]\<rparr>)"

definition incomingQuery :: "int \<Rightarrow> int \<Rightarrow> MessageQuery" where
  "incomingQuery after before =
     \<lparr>q_after = after - 15000, q_before = before, q_withChats = True,
      q_where = [(''message.is_from_me = :fromMe'', 0)]\<rparr>"

definition getEntries ::
  "(MessageQuery \<Rightarrow> Message list) \<Rightarrow> (Message \<Rightarrow> string)
     \<Rightarrow> IncomingMessageListener \<Rightarrow> int \<Rightarrow> int \<Rightarrow> IncomingMessageListener" where
  "getEntries repo getCacheName l after before =
     foldl (entryStep getCacheName) l (repo (incomingQuery after before))"


section \<open>The claims' own notions\<close>

text \<open>
  A tracked timestamp has advanced past the snapshot, in the words of the
  specification: an absent timestamp counts as 0.
\<close>

definition advanced :: "Message \<Rightarrow> MessageState \<Rightarrow> bool" where
  "advanced m st =
     (timeOr0 (dateCreated m) > st_dateCreated st
      \<or> timeOr0 (dateDelivered m) > st_dateDelivered st
      \<or> timeOr0 (dateRead m) > st_dateRead st
      \<or> timeOr0 (dateEdited m) > st_dateEdited st
      \<or> timeOr0 (dateRetracted m) > st_dateRetracted st)"

text \<open>The snapshot that holds a record's current timestamp values.\<close>

definition snapshot :: "Message \<Rightarrow> MessageState" where
  "snapshot m =
     \<lparr>st_dateCreated = timeOr0 (dateCreated m),
      st_dateDelivered = timeOr0 (dateDelivered m),
      st_dateRead = timeOr0 (dateRead m),
      st_dateEdited = timeOr0 (dateEdited m),
      st_dateRetracted = timeOr0 (dateRetracted m)\<rparr>"



text \<open>
  The debounce decision in the claim's words, on the cache entry of the guid: a push is
  emitted when its guid has never been seen, when its typing value differs from the last
  emitted one, or when more than 5 seconds have passed since the last emission.
\<close>

definition shouldEmit :: "HelperService \<Rightarrow> string \<Rightarrow> string \<Rightarrow> int \<Rightarrow> bool" where
  "shouldEmit s event g now =
     (case typingCache s g of
        None \<Rightarrow> True
      | Some entry \<Rightarrow> lastValue entry \<noteq> (event = ''started-typing'') \<or> now - lastSeen entry > 5000)"

text \<open>
  What a poll cycle does for the rows \<open>es\<close> it emits: each key is added to the cache,
  then the row is emitted.
\<close>

definition emissions :: "(Message \<Rightarrow> string) \<Rightarrow> Message list \<Rightarrow> poll_effect list" where
  "emissions getCacheName es =
     concat (map (\<lambda>e. [CacheAdd (getCacheName e), EmitEntry ''new-entry'' e]) es)"

section \<open>Example inputs\<close>

text \<open>
  A self-authored record that is sent without an error, the same record without a
  creation date, a store that holds the sent record, and a record without a creation
  date whose guid is the name of a property that every object inherits.
\<close>

definition sentMessage :: Message where
  "sentMessage = \<lparr>guid = ''G1'', dateCreated = Some 1000, dateDelivered = None,
     dateRead = None, dateEdited = None, dateRetracted = None,
     isFromMe = True, isSent = True, error = Some 0\<rparr>"

definition undatedMessage :: Message where
  "undatedMessage = sentMessage\<lparr>dateCreated := None\<rparr>"


definition sentStore :: "string \<Rightarrow> Message option" where
  "sentStore g = (if g = ''G1'' then Some sentMessage else None)"


text \<open>
  The frame \<^verbatim>\<open>{"event":"ping"}\<close>, what it decodes to, and a decoder that knows this
  frame alone and throws on any other text.
\<close>

definition pingFrame :: HelperFrame where
  "pingFrame = \<lparr>f_transactionId = None, f_identifier = None, f_data = None, f_error = None,
     f_event = Some ''ping'', f_guid = None\<rparr>"

definition pingText :: string where
  "pingText = [CHR ''{'', CHR 0x22] @ ''event'' @ [CHR 0x22, CHR '':'', CHR 0x22] @ ''ping'' @ [CHR 0x22, CHR ''}'']"

definition decodePing :: "string \<Rightarrow> HelperFrame option option" where
  "decodePing frame = (if frame = pingText then Some (Some pingFrame) else None)"

text \<open>A service with two pending transactions, and a response to the first.\<close>

definition twoPending :: HelperService where
  "twoPending = new_service\<lparr>transactionManager :=
     tm_add (tm_add [] \<lparr>transactionId = ''T1''\<rparr>) \<lparr>transactionId = ''T2''\<rparr>\<rparr>"

definition responseT1 :: HelperFrame where
  "responseT1 = \<lparr>f_transactionId = Some ''T1'', f_identifier = Some ''G9'', f_data = None,
     f_error = None, f_event = None, f_guid = None\<rparr>"

text \<open>Two rows that are not authored locally.\<close>

definition incomingA :: Message where
  "incomingA = \<lparr>guid = ''A'', dateCreated = Some 1000, dateDelivered = None,
     dateRead = None, dateEdited = None, dateRetracted = None,
     isFromMe = False, isSent = False, error = Some 0\<rparr>"

definition incomingB :: Message where
  "incomingB = incomingA\<lparr>guid := ''B''\<rparr>"

section \<open>The matcher's scans\<close>

text \<open>Both loops agree with the library's search for the first element of a list.\<close>

lemma find_loop_drop:
  "i \<le> length ps \<Longrightarrow>
   find_loop isRes isSame ps message incl i
     = List.find (eligible isRes isSame message incl) (drop i ps)"
proof (induction isRes isSame ps message incl i rule: find_loop.induct)
  case (1 isRes isSame ps message incl i)
  show ?case
  proof (cases "i < length ps")
    case True
    then have d: "drop i ps = ps ! i # drop (Suc i) ps"
      by (simp add: Cons_nth_drop_Suc)
    have e: "eligible isRes isSame message incl (ps ! i)
             = ((incl \<or> \<not> isRes (ps ! i)) \<and> isSame (ps ! i) message)"
      by (simp add: eligible_def)
    from True "1.IH" show ?thesis
      by (subst find_loop.simps) (auto simp: d e)
  next
    case False
    with "1.prems" show ?thesis by (subst find_loop.simps) simp
  qed
qed

lemma findIndex_loop_none:
  "i \<le> length ps \<Longrightarrow>
   List.find (eligible isRes isSame message incl) (drop i ps) = None \<Longrightarrow>
   findIndex_loop isRes isSame ps message incl i = - 1"
proof (induction isRes isSame ps message incl i rule: findIndex_loop.induct)
  case (1 isRes isSame ps message incl i)
  show ?case
  proof (cases "i < length ps")
    case True
    then have d: "drop i ps = ps ! i # drop (Suc i) ps"
      by (simp add: Cons_nth_drop_Suc)
    have e: "eligible isRes isSame message incl (ps ! i)
             = ((incl \<or> \<not> isRes (ps ! i)) \<and> isSame (ps ! i) message)"
      by (simp add: eligible_def)
    from True "1.IH" "1.prems" show ?thesis
      by (subst findIndex_loop.simps) (auto simp: d e split: if_splits)
  next
    case False
    then show ?thesis by (subst findIndex_loop.simps) simp
  qed
qed

lemma findIndex_loop_some:
  "i \<le> length ps \<Longrightarrow>
   List.find (eligible isRes isSame message incl) (drop i ps) = Some p \<Longrightarrow>
   (\<exists>k. findIndex_loop isRes isSame ps message incl i = int k \<and> i \<le> k \<and> k < length ps
        \<and> ps ! k = p \<and> (\<forall>j. i \<le> j \<and> j < k \<longrightarrow> \<not> eligible isRes isSame message incl (ps ! j)))"
proof (induction isRes isSame ps message incl i rule: findIndex_loop.induct)
  case (1 isRes isSame ps message incl i)
  let ?E = "eligible isRes isSame message incl"
  show ?case
  proof (cases "i < length ps")
    case True
    then have d: "drop i ps = ps ! i # drop (Suc i) ps"
      by (simp add: Cons_nth_drop_Suc)
    have e: "?E (ps ! i) = ((incl \<or> \<not> isRes (ps ! i)) \<and> isSame (ps ! i) message)"
      by (simp add: eligible_def)
    show ?thesis
    proof (cases "?E (ps ! i)")
      case el: True
      with "1.prems"(2) d have "p = ps ! i" by simp
      moreover have "findIndex_loop isRes isSame ps message incl i = int i"
        using el True e by (subst findIndex_loop.simps) auto
      ultimately show ?thesis using True by (intro exI[of _ i]) auto
    next
      case el: False
      with "1.prems"(2) d have f: "List.find ?E (drop (i + 1) ps) = Some p"
        by simp
      have step: "findIndex_loop isRes isSame ps message incl i
                  = findIndex_loop isRes isSame ps message incl (i + 1)"
        using el True e by (subst findIndex_loop.simps) auto
      have le: "i + 1 \<le> length ps" using True by simp
      have "\<exists>k. findIndex_loop isRes isSame ps message incl (i + 1) = int k \<and> i + 1 \<le> k \<and> k < length ps
        \<and> ps ! k = p \<and> (\<forall>j. i + 1 \<le> j \<and> j < k \<longrightarrow> \<not> ?E (ps ! j))"
      proof (cases "\<not> incl \<and> isRes (ps ! i)")
        case sk: True
        show ?thesis using "1.IH"(1)[OF True sk le f] .
      next
        case sk: False
        with el e have ns: "\<not> isSame (ps ! i) message" by auto
        show ?thesis using "1.IH"(2)[OF True sk ns le f] .
      qed
      then obtain k where k: "findIndex_loop isRes isSame ps message incl (i + 1) = int k" "i + 1 \<le> k" "k < length ps"
        "ps ! k = p" "\<forall>j. i + 1 \<le> j \<and> j < k \<longrightarrow> \<not> ?E (ps ! j)"
        by blast
      have "\<forall>j. i \<le> j \<and> j < k \<longrightarrow> \<not> ?E (ps ! j)"
      proof (intro allI impI)
        fix j assume "i \<le> j \<and> j < k"
        then show "\<not> ?E (ps ! j)"
          using el k(5) by (cases "j = i") auto
      qed
      with k step show ?thesis by (intro exI[of _ k]) simp
    qed
  next
    case False
    with "1.prems" show ?thesis by simp
  qed
qed



text \<open>
  C8. \<^verbatim>\<open>add\<close> appends, so the array is in insertion order; \<^verbatim>\<open>find\<close> returns the
  first promise of the array that is not skipped (a resolved promise is skipped unless
  \<^verbatim>\<open>includeResolved\<close> is set; the default is \<open>False\<close>) and for which
  \<^verbatim>\<open>isSame(message)\<close> holds; \<^verbatim>\<open>findIndex\<close> returns the index of that same
  promise, before which no promise qualifies, and \<open>-1\<close> when \<^verbatim>\<open>find\<close> returns
  \<^verbatim>\<open>null\<close>.
\<close>

theorem find_returns_first_match:
  "promises (add mgr p) = promises mgr @ [p]
   \<and> find_promise isRes isSame mgr message incl
       = List.find (eligible isRes isSame message incl) (promises mgr)
   \<and> (case find_promise isRes isSame mgr message incl of
         None \<Rightarrow> findIndex isRes isSame mgr message incl = - 1
       | Some q \<Rightarrow>
           (\<exists>k. findIndex isRes isSame mgr message incl = int k \<and> k < length (promises mgr)
                \<and> promises mgr ! k = q
                \<and> (\<forall>j < k. \<not> eligible isRes isSame message incl (promises mgr ! j))))"
proof -
  let ?ps = "promises mgr"
  have f: "find_promise isRes isSame mgr message incl
             = List.find (eligible isRes isSame message incl) ?ps"
    using find_loop_drop[of 0 ?ps isRes isSame message incl] by (simp add: find_promise_def)
  have i: "(case List.find (eligible isRes isSame message incl) ?ps of
         None \<Rightarrow> findIndex isRes isSame mgr message incl = - 1
       | Some q \<Rightarrow>
           (\<exists>k. findIndex isRes isSame mgr message incl = int k \<and> k < length ?ps
                \<and> ?ps ! k = q
                \<and> (\<forall>j < k. \<not> eligible isRes isSame message incl (?ps ! j))))"
  proof (cases "List.find (eligible isRes isSame message incl) ?ps")
    case None
    then show ?thesis
      using findIndex_loop_none[of 0 ?ps isRes isSame message incl] by (simp add: findIndex_def)
  next
    case (Some q)
    then show ?thesis
      using findIndex_loop_some[of 0 ?ps isRes isSame message incl q] by (simp add: findIndex_def)
  qed
  show ?thesis using f i by (simp add: add_def)
qed


text \<open>
  The scan passes over a resolved promise and a promise for another message, and stops
  at the first of two matching ones.
\<close>

theorem find_returns_first_match_witness:
  "find_promise fst (\<lambda>p m. snd p = m) \<lparr>promises = [(True, 1::nat), (False, 2), (False, 1), (False, 1)]\<rparr> (1::nat) False
     = Some (False, 1)
   \<and> findIndex fst (\<lambda>p m. snd p = m) \<lparr>promises = [(True, 1::nat), (False, 2), (False, 1), (False, 1)]\<rparr> (1::nat) False = 2"
  using find_returns_first_match[of "\<lparr>promises = [(True, 1::nat), (False, 2), (False, 1), (False, 1)]\<rparr>"
          "(False, 7)" fst "\<lambda>p m. snd p = m" "1::nat" False]
  by (auto simp: eligible_def less_Suc_eq nth_Cons' numeral_eq_Suc split: if_splits)


text \<open>
  C10. When no registered promise matches under the default (resolved promises skipped),
  \<^verbatim>\<open>find\<close> returns \<^verbatim>\<open>null\<close> and \<^verbatim>\<open>findIndex\<close> returns \<open>-1\<close>. Both
  are values of the functions' result types: the scans have no failing branch.
\<close>

theorem no_match_is_null_and_minus_one:
  assumes "\<forall>p \<in> set (promises mgr). \<not> eligible isRes isSame message False p"
  shows "find_promise isRes isSame mgr message False = None
       \<and> findIndex isRes isSame mgr message False = - 1"
proof -
  from assms have n: "List.find (eligible isRes isSame message False) (promises mgr) = None"
    by (simp add: find_None_iff)
  show ?thesis
    using n find_loop_drop[of 0 "promises mgr" isRes isSame message False]
          findIndex_loop_none[of 0 "promises mgr" isRes isSame message False]
    by (simp add: find_promise_def findIndex_def)
qed


text \<open>A manager whose only promise for the message is resolved.\<close>

theorem no_match_is_null_and_minus_one_witness:
  "find_promise fst (\<lambda>p m. snd p = m) \<lparr>promises = [(True, 1::nat), (False, 2)]\<rparr> (1::nat) False = None
   \<and> findIndex fst (\<lambda>p m. snd p = m) \<lparr>promises = [(True, 1::nat), (False, 2)]\<rparr> (1::nat) False = - 1"
proof -
  have h: "\<forall>p \<in> set (promises \<lparr>promises = [(True, 1::nat), (False, 2)]\<rparr>).
             \<not> eligible fst (\<lambda>p m. snd p = m) (1::nat) False p"
    by (simp add: eligible_def)
  from no_match_is_null_and_minus_one[OF h] show ?thesis .
qed


section \<open>The update classifier\<close>

lemma getMessageEvent_created:
  assumes "dateCreated m = Some c"
  shows "getMessageEvent l (Some m) =
     (if \<not> cache_find (cache l) (guid m) then Inr (Some ''new-entry'')
      else (case cacheState l (guid m) of
              None \<Rightarrow> Inr None
            | Some st \<Rightarrow> if advanced m st then Inr (Some ''updated-entry'') else Inr None))"
  using assms by (simp add: getMessageEvent_def advanced_def timeOr0_def split: option.split)











text \<open>
  C3, for a record whose creation date is present. If the record's guid is not in the
  dedup cache, \<^verbatim>\<open>processMessageEvent\<close> returns \<^verbatim>\<open>"new-entry"\<close>; afterwards the
  guid is found in the cache and the snapshot for the guid holds the record's timestamp
  values; processing the same record again returns \<^verbatim>\<open>null\<close> and changes nothing.
\<close>

theorem processMessageEvent_new_then_unchanged:
  assumes "\<not> cache_find (cache l) (guid r)" and "dateCreated r \<noteq> None"
  shows "fst (processMessageEvent l (Some r)) = Inr (Some ''new-entry'')
       \<and> cache_find (cache (snd (processMessageEvent l (Some r)))) (guid r)
       \<and> cacheState (snd (processMessageEvent l (Some r))) (guid r) = Some (snapshot r)
       \<and> processMessageEvent (snd (processMessageEvent l (Some r))) (Some r)
           = (Inr None, snd (processMessageEvent l (Some r)))"
proof -
  from assms obtain c where c: "dateCreated r = Some c" by auto
  define l1 where "l1 = l\<lparr>cache := cache_add (cache l) (guid r),
                          cacheState := (cacheState l)(guid r \<mapsto> snapshot r)\<rparr>"
  have first: "processMessageEvent l (Some r) = (Inr (Some ''new-entry''), l1)"
    using assms(1) c
    by (simp add: processMessageEvent_def getMessageEvent_def l1_def snapshot_def timeOr0_def)
  have found: "cache_find (cache l1) (guid r)"
    by (simp add: l1_def cache_find_def cache_add_def)
  have snap: "cacheState l1 (guid r) = Some (snapshot r)"
    by (simp add: l1_def)
  have "\<not> advanced r (snapshot r)"
    by (simp add: advanced_def snapshot_def)
  then have "getMessageEvent l1 (Some r) = Inr None"
    using found snap by (simp add: getMessageEvent_created[OF c])
  then have second: "processMessageEvent l1 (Some r) = (Inr None, l1)"
    by (simp add: processMessageEvent_def)
  show ?thesis using first found snap second by simp
qed


text \<open>A new listener sees the sent record for the first time.\<close>

theorem processMessageEvent_new_then_unchanged_witness:
  "fst (processMessageEvent (new_listener []) (Some sentMessage)) = Inr (Some ''new-entry'')
   \<and> snd (processMessageEvent (new_listener []) (Some sentMessage))
       = \<lparr>cache = [''G1''], cacheState = [''G1'' \<mapsto> snapshot sentMessage],
          notSent = None, effects = []\<rparr>"
  using processMessageEvent_new_then_unchanged[of "new_listener []" sentMessage]
  by (simp add: processMessageEvent_def getMessageEvent_def new_listener_def sentMessage_def
        cache_find_def cache_add_def snapshot_def timeOr0_def)


text \<open>
  C3 as stated fails for a record without a creation date: the guid is added to the
  cache, then building the snapshot throws, so no event is returned and no snapshot is
  stored.
\<close>

theorem processMessageEvent_undated_counterexample:
  "\<not> cache_find (cache (new_listener [])) (guid undatedMessage)
   \<and> processMessageEvent (new_listener []) (Some undatedMessage)
       = (Inl TypeError, \<lparr>cache = [''G1''], cacheState = Map.empty, notSent = None, effects = []\<rparr>)"
  by (simp add: processMessageEvent_def getMessageEvent_def new_listener_def undatedMessage_def
        sentMessage_def cache_find_def cache_add_def)


section \<open>Notifications about self-authored messages\<close>

lemma processMessageEvent_null: "processMessageEvent l None = (Inl TypeError, l)"
  by (simp add: processMessageEvent_def getMessageEvent_def)

lemma handleOutgoingMessage_always_throws:
  "fst (handleOutgoingMessage repo isNotEmpty rejectOk l messageGUID fromMe sent) = Threw TypeError
   \<and> effects (snd (handleOutgoingMessage repo isNotEmpty rejectOk l messageGUID fromMe sent)) = effects l"
  by (simp add: handleOutgoingMessage_def processMessageEvent_null Let_def
           split: option.split)

lemma onReceiveMessageUpdate_fromMe_throws:
  "fst (onReceiveMessageUpdate repo isNotEmpty rejectOk l messageGUID sent True) = Threw TypeError
   \<and> effects (snd (onReceiveMessageUpdate repo isNotEmpty rejectOk l messageGUID sent True)) = effects l"
proof -
  obtain c l1 where h: "handleOutgoingMessage repo isNotEmpty rejectOk l messageGUID True sent = (c, l1)"
    by (cases "handleOutgoingMessage repo isNotEmpty rejectOk l messageGUID True sent")
  with handleOutgoingMessage_always_throws[of repo isNotEmpty rejectOk l messageGUID True sent]
  have "c = Threw TypeError" "effects l1 = effects l" by simp_all
  with h show ?thesis by (simp add: onReceiveMessageUpdate_def)
qed


text \<open>
  C1. A notification with \<^verbatim>\<open>isSent\<close> and \<^verbatim>\<open>isFromMe\<close> set, about a record
  that is sent with error code 0, reaches a new listener: \<^verbatim>\<open>newUnsent\<close> is
  \<^verbatim>\<open>null\<close> and reading \<^verbatim>\<open>newUnsent.guid\<close> throws. Nothing is resolved, nothing
  is emitted, and the listener is unchanged.
\<close>

theorem sent_notification_throws:
  "sentStore ''G1'' = Some sentMessage \<and> isSent sentMessage \<and> error sentMessage = Some 0
   \<and> onReceiveMessageUpdate sentStore (\<lambda>s. s \<noteq> []) (\<lambda>m. True) (new_listener []) ''G1'' True True
       = (Threw TypeError, new_listener [])"
  by (simp add: onReceiveMessageUpdate_def handleOutgoingMessage_def sentStore_def sentMessage_def
        new_listener_def)


section \<open>The restart cap\<close>

text \<open>
  C4. Starting from a reset counter and with no successful listen in between, five
  socket errors cause five restarts and leave the counter at 5; the sixth error passes
  the guard \<^verbatim>\<open>restartCounter <= 5\<close> and restarts a sixth time; only the seventh
  error is answered by the diagnostic alone. A successful listen resets the counter.
\<close>

theorem sixth_failure_restarts:
  "restartCounter (serverRun new_service (replicate 5 (ServerError ''EADDRINUSE''))) = 5
   \<and> restarts (serverRun new_service (replicate 5 (ServerError ''EADDRINUSE''))) = 5
   \<and> restarts (serverRun new_service (replicate 6 (ServerError ''EADDRINUSE''))) = 6
   \<and> restartCounter (serverRun new_service (replicate 6 (ServerError ''EADDRINUSE''))) = 6
   \<and> restarts (serverRun new_service (replicate 7 (ServerError ''EADDRINUSE''))) = 6
   \<and> last (trace (serverRun new_service (replicate 7 (ServerError ''EADDRINUSE''))))
       = Log ''Max restart count reached for Private API listener...''
   \<and> restartCounter (serverRun new_service
         (replicate 3 (ServerError ''EADDRINUSE'') @ [Listening])) = 0"
  by (simp add: serverRun_def numeral_eq_Suc onServerError_def onListening_def start_def stop_def
        log_def new_service_def restarts_def Let_def)



section \<open>Typing indicators\<close>













section \<open>Inbound frames\<close>

lemma malformed_frame_ends_handler:
  "event \<noteq> [] \<Longrightarrow> \<not> isBlank event \<Longrightarrow> parse event = None \<Longrightarrow>
   frameLoop parse isNotEmpty now s (event # rest)
     = log ''Failed to decode BlueBubblesHelper data!'' (log ''Received data from BlueBubblesHelper'' s)"
  by (simp add: Let_def)

lemma split_ex1: "split_newline (''{bad'' @ [CHR 0x0A] @ pingText) = [''{bad'', pingText]"
  by (simp add: pingText_def)

lemma split_ex2: "split_newline (pingText @ [CHR 0x0A] @ ''{bad'') = [pingText, ''{bad'']"
  by (simp add: pingText_def)


text \<open>
  C6. One read holds a malformed frame followed by a ping: the handler logs the failure
  and returns, and the ping is not processed. With the two frames in the other order the
  ping is processed first.
\<close>

theorem frame_after_malformed_is_dropped:
  "onData decodePing (\<lambda>e. e \<noteq> []) 0 new_service (Some (''{bad'' @ [CHR 0x0A] @ pingText))
     = new_service\<lparr>trace := [Log ''Received data from BlueBubblesHelper'',
                               Log ''Failed to decode BlueBubblesHelper data!'']\<rparr>
   \<and> onData decodePing (\<lambda>e. e \<noteq> []) 0 new_service (Some (pingText @ [CHR 0x0A] @ ''{bad''))
     = new_service\<lparr>trace := [Log ''Received data from BlueBubblesHelper'',
                               Log ''Private API Helper connected!'',
                               Log ''Received data from BlueBubblesHelper'',
                               Log ''Failed to decode BlueBubblesHelper data!'']\<rparr>"
  unfolding onData_def option.case split_ex1 split_ex2
  by (simp add: uniqueEvents_def decodePing_def pingText_def pingFrame_def isBlank_def isWhiteSpace_def
        dispatch_def truthy_def log_def new_service_def Let_def)


section \<open>Transactions\<close>

lemma tm_findIndex_absent:
  "tid \<notin> transactionId ` set ps \<Longrightarrow> tm_findIndex ps tid = - 1"
  by (induction ps) (auto simp: Let_def)

lemma tm_findIndex_present:
  "tid \<in> transactionId ` set ps \<Longrightarrow>
   0 \<le> tm_findIndex ps tid \<and> nat (tm_findIndex ps tid) < length ps
   \<and> transactionId (ps ! nat (tm_findIndex ps tid)) = tid"
proof (induction ps)
  case Nil
  then show ?case by simp
next
  case (Cons t ts)
  show ?case
  proof (cases "transactionId t = tid")
    case True
    then show ?thesis by simp
  next
    case False
    with Cons.prems have "tid \<in> transactionId ` set ts" by auto
    from Cons.IH[OF this] False show ?thesis
      by (auto simp: Let_def nat_add_distrib)
  qed
qed

lemma tm_remove_ids:
  "distinct (map transactionId ps) \<Longrightarrow> k < length ps \<Longrightarrow>
   transactionId ` set (tm_remove ps k) = transactionId ` set ps - {transactionId (ps ! k)}"
proof -
  assume d: "distinct (map transactionId ps)" and k: "k < length ps"
  have ps: "ps = take k ps @ ps ! k # drop (Suc k) ps"
    using k by (simp add: id_take_nth_drop)
  from d have "distinct (map transactionId (take k ps @ ps ! k # drop (Suc k) ps))"
    using ps by simp
  then have notin: "\<forall>x \<in> set (take k ps). transactionId x \<noteq> transactionId (ps ! k)"
                   "\<forall>x \<in> set (drop (Suc k) ps). transactionId x \<noteq> transactionId (ps ! k)"
    by (auto simp: image_iff)
  have "set ps = set (take k ps) \<union> {ps ! k} \<union> set (drop (Suc k) ps)"
    by (subst ps) auto
  then show ?thesis using notin by (auto simp: tm_remove_def)
qed


text \<open>
  C7. With correlation ids unique among the pending transactions, a frame carrying the
  non-empty id of a pending transaction settles it (rejected when the error payload is
  not empty, fulfilled otherwise): exactly that id leaves the correlator and one
  settlement is recorded. A second frame with the same id changes nothing.
\<close>

theorem transaction_settled_once:
  assumes "distinct (map transactionId (transactionManager s))"
      and "tid \<noteq> []"
      and "tid \<in> transactionId ` set (transactionManager s)"
      and "f_transactionId d = Some tid" and "f_transactionId d2 = Some tid"
  shows "transactionId ` set (transactionManager (dispatch isNotEmpty now s d))
           = transactionId ` set (transactionManager s) - {tid}
       \<and> trace (dispatch isNotEmpty now s d)
           = trace s @ [if isNotEmpty (orEmpty (f_error d)) then Rejected tid (f_error d)
                        else Fulfilled tid (f_identifier d) (f_data d)]
       \<and> dispatch isNotEmpty now2 (dispatch isNotEmpty now s d) d2 = dispatch isNotEmpty now s d"
proof -
  let ?ps = "transactionManager s"
  let ?k = "nat (tm_findIndex ?ps tid)"
  let ?s1 = "dispatch isNotEmpty now s d"
  from tm_findIndex_present[OF assms(3)]
  have idx: "0 \<le> tm_findIndex ?ps tid" "?k < length ?ps" "transactionId (?ps ! ?k) = tid"
    by simp_all
  have tr: "truthy (f_transactionId d)" "truthy (f_transactionId d2)"
       "orEmpty (f_transactionId d) = tid" "orEmpty (f_transactionId d2) = tid"
    using assms(2,4,5) by (simp_all add: truthy_def orEmpty_def)
  have mgr: "transactionManager ?s1 = tm_remove ?ps ?k"
    using tr idx(1) by (simp add: dispatch_def Let_def promise_reject_def promise_resolve_def)
  have ids: "transactionId ` set (transactionManager ?s1) = transactionId ` set ?ps - {tid}"
    using tm_remove_ids[OF assms(1) idx(2)] idx(3) mgr by simp
  have trc: "trace ?s1 = trace s @ [if isNotEmpty (orEmpty (f_error d)) then Rejected tid (f_error d)
                        else Fulfilled tid (f_identifier d) (f_data d)]"
    using tr idx(1,3) by (simp add: dispatch_def Let_def promise_reject_def promise_resolve_def)
  from ids have "tid \<notin> transactionId ` set (transactionManager ?s1)" by simp
  from tm_findIndex_absent[OF this] have "tm_findIndex (transactionManager ?s1) tid = - 1" .
  then have again: "dispatch isNotEmpty now2 ?s1 d2 = ?s1"
    using tr by (simp add: dispatch_def[of isNotEmpty now2 ?s1 d2] Let_def)
  show ?thesis using ids trc again by simp
qed


text \<open>The response to the first of two pending transactions, received twice.\<close>

theorem transaction_settled_once_witness:
  "dispatch (\<lambda>e. e \<noteq> []) 0 twoPending responseT1
     = new_service\<lparr>transactionManager := [\<lparr>transactionId = ''T2''\<rparr>],
                    trace := [Fulfilled ''T1'' (Some ''G9'') None]\<rparr>
   \<and> dispatch (\<lambda>e. e \<noteq> []) 1 (dispatch (\<lambda>e. e \<noteq> []) 0 twoPending responseT1) responseT1
     = dispatch (\<lambda>e. e \<noteq> []) 0 twoPending responseT1"
proof -
  have h1: "distinct (map transactionId (transactionManager twoPending))"
    by (simp add: twoPending_def tm_add_def new_service_def)
  have h2: "''T1'' \<noteq> []" by simp
  have h3: "''T1'' \<in> transactionId ` set (transactionManager twoPending)"
    by (simp add: twoPending_def tm_add_def new_service_def)
  have h4: "f_transactionId responseT1 = Some ''T1''" by (simp add: responseT1_def)
  have first: "dispatch (\<lambda>e. e \<noteq> []) 0 twoPending responseT1
     = new_service\<lparr>transactionManager := [\<lparr>transactionId = ''T2''\<rparr>],
                    trace := [Fulfilled ''T1'' (Some ''G9'') None]\<rparr>"
    by (simp add: dispatch_def twoPending_def responseT1_def tm_add_def new_service_def truthy_def
          orEmpty_def promise_resolve_def tm_remove_def)
  from transaction_settled_once[OF h1 h2 h3 h4 h4, of "\<lambda>e. e \<noteq> []" 0 1]
  have again: "dispatch (\<lambda>e. e \<noteq> []) 1 (dispatch (\<lambda>e. e \<noteq> []) 0 twoPending responseT1) responseT1
     = dispatch (\<lambda>e. e \<noteq> []) 0 twoPending responseT1"
    by (elim conjE)
  show ?thesis by (rule conjI[OF first again])
qed


section \<open>Polling for incoming messages\<close>

lemma entryStep_seen:
  "cache_find (il_cache l) (getCacheName entry) \<Longrightarrow> entryStep getCacheName l entry = l"
  by (simp add: entryStep_def Let_def)

lemma entryStep_new:
  "\<not> cache_find (il_cache l) (getCacheName entry) \<Longrightarrow>
   entryStep getCacheName l entry =
     \<lparr>il_cache = cache_add (il_cache l) (getCacheName entry),
      il_trace = il_trace l @ [CacheAdd (getCacheName entry), EmitEntry ''new-entry'' entry]\<rparr>"
  by (cases l) (simp add: entryStep_def Let_def)

lemma foldl_entryStep:
  "\<exists>es. il_trace (foldl (entryStep getCacheName) l rows) = il_trace l @ emissions getCacheName es
       \<and> distinct (map getCacheName es)
       \<and> getCacheName ` set es = getCacheName ` set rows - set (il_cache l)
       \<and> set es \<subseteq> set rows
       \<and> set (il_cache (foldl (entryStep getCacheName) l rows))
           = set (il_cache l) \<union> getCacheName ` set rows"
proof (induction rows arbitrary: l)
  case Nil
  show ?case by (intro exI[of _ "[]"]) (simp add: emissions_def)
next
  case (Cons r rs)
  show ?case
  proof (cases "cache_find (il_cache l) (getCacheName r)")
    case True
    then have in_cache: "getCacheName r \<in> set (il_cache l)" by (simp add: cache_find_def)
    from Cons.IH[of l] obtain es where es:
      "il_trace (foldl (entryStep getCacheName) l rs) = il_trace l @ emissions getCacheName es"
      "distinct (map getCacheName es)"
      "getCacheName ` set es = getCacheName ` set rs - set (il_cache l)"
      "set es \<subseteq> set rs"
      "set (il_cache (foldl (entryStep getCacheName) l rs)) = set (il_cache l) \<union> getCacheName ` set rs"
      by blast
    show ?thesis
      using es in_cache by (intro exI[of _ es]) (auto simp: entryStep_seen[of l getCacheName r, OF True])
  next
    case False
    then have fresh: "getCacheName r \<notin> set (il_cache l)" by (simp add: cache_find_def)
    let ?l1 = "entryStep getCacheName l r"
    have l1: "il_cache ?l1 = il_cache l @ [getCacheName r]"
         "il_trace ?l1 = il_trace l @ [CacheAdd (getCacheName r), EmitEntry ''new-entry'' r]"
      using fresh by (simp_all add: entryStep_new[of l getCacheName r, OF False] cache_add_def)
    from Cons.IH[of ?l1] obtain es where es:
      "il_trace (foldl (entryStep getCacheName) ?l1 rs) = il_trace ?l1 @ emissions getCacheName es"
      "distinct (map getCacheName es)"
      "getCacheName ` set es = getCacheName ` set rs - set (il_cache ?l1)"
      "set es \<subseteq> set rs"
      "set (il_cache (foldl (entryStep getCacheName) ?l1 rs)) = set (il_cache ?l1) \<union> getCacheName ` set rs"
      by blast
    have notin: "getCacheName r \<notin> getCacheName ` set es"
      using es(3) l1(1) by auto
    have img: "getCacheName ` set (r # es) = getCacheName ` set (r # rs) - set (il_cache l)"
      using es(3) l1(1) fresh by auto
    show ?thesis
      using es(1,2,4,5) l1 notin img
      by (intro exI[of _ "r # es"]) (auto simp: emissions_def)
  qed
qed


text \<open>
  C9. \<^verbatim>\<open>getEntries(after, before)\<close> queries the store for the window from
  \<open>after - 15000\<close> ms to \<open>before\<close> with the filter \<^verbatim>\<open>is_from_me = 0\<close>. A row
  whose cache key is in the cache changes nothing; a row whose key is not in it has the
  key added to the cache and is then emitted as \<^verbatim>\<open>"new-entry"\<close>. Over the whole
  cycle every key that was not in the cache is emitted exactly once, and the cache ends
  with the old keys and the keys of all rows.
\<close>

theorem getEntries_emits_unseen_rows:
  "getEntries repo getCacheName l after before
     = foldl (entryStep getCacheName) l
         (repo \<lparr>q_after = after - 15000, q_before = before, q_withChats = True,
                q_where = [(''message.is_from_me = :fromMe'', 0)]\<rparr>)
   \<and> (cache_find (il_cache l) (getCacheName entry) \<longrightarrow> entryStep getCacheName l entry = l)
   \<and> (\<not> cache_find (il_cache l) (getCacheName entry) \<longrightarrow>
        entryStep getCacheName l entry =
          \<lparr>il_cache = cache_add (il_cache l) (getCacheName entry),
           il_trace = il_trace l @ [CacheAdd (getCacheName entry), EmitEntry ''new-entry'' entry]\<rparr>)
   \<and> (\<exists>es. il_trace (getEntries repo getCacheName l after before)
               = il_trace l @ emissions getCacheName es
           \<and> distinct (map getCacheName es)
           \<and> getCacheName ` set es
               = getCacheName ` set (repo (incomingQuery after before)) - set (il_cache l)
           \<and> set es \<subseteq> set (repo (incomingQuery after before)))
   \<and> set (il_cache (getEntries repo getCacheName l after before))
       = set (il_cache l) \<union> getCacheName ` set (repo (incomingQuery after before))"
proof -
  from foldl_entryStep[of getCacheName l "repo (incomingQuery after before)"]
  obtain es where es:
      "il_trace (getEntries repo getCacheName l after before) = il_trace l @ emissions getCacheName es"
      "distinct (map getCacheName es)"
      "getCacheName ` set es = getCacheName ` set (repo (incomingQuery after before)) - set (il_cache l)"
      "set es \<subseteq> set (repo (incomingQuery after before))"
      "set (il_cache (getEntries repo getCacheName l after before))
         = set (il_cache l) \<union> getCacheName ` set (repo (incomingQuery after before))"
    unfolding getEntries_def by blast
  have q: "getEntries repo getCacheName l after before
     = foldl (entryStep getCacheName) l
         (repo \<lparr>q_after = after - 15000, q_before = before, q_withChats = True,
                q_where = [(''message.is_from_me = :fromMe'', 0)]\<rparr>)"
    by (simp add: getEntries_def incomingQuery_def)
  from es(1-4) have ex: "\<exists>es. il_trace (getEntries repo getCacheName l after before)
               = il_trace l @ emissions getCacheName es
           \<and> distinct (map getCacheName es)
           \<and> getCacheName ` set es
               = getCacheName ` set (repo (incomingQuery after before)) - set (il_cache l)
           \<and> set es \<subseteq> set (repo (incomingQuery after before))"
    by blast
  show ?thesis
    using q ex es(5) entryStep_seen[of l getCacheName entry] entryStep_new[of l getCacheName entry]
    by blast
qed


text \<open>Three rows, one of them seen before and one repeated: one emission.\<close>

theorem getEntries_emits_unseen_rows_witness:
  "getEntries (\<lambda>q. if q_after q = 5000 \<and> q_before q = 30000 \<and> q_where q = [(''message.is_from_me = :fromMe'', 0)]
                    then [incomingA, incomingB, incomingA] else [])
      guid \<lparr>il_cache = [''B''], il_trace = []\<rparr> 20000 30000
     = \<lparr>il_cache = [''B'', ''A''], il_trace = [CacheAdd ''A'', EmitEntry ''new-entry'' incomingA]\<rparr>"
  using getEntries_emits_unseen_rows[of
          "\<lambda>q. if q_after q = 5000 \<and> q_before q = 30000 \<and> q_where q = [(''message.is_from_me = :fromMe'', 0)]
                    then [incomingA, incomingB, incomingA] else []"
          guid "\<lparr>il_cache = [''B''], il_trace = []\<rparr>" 20000 30000 incomingA]
  by (simp add: entryStep_def cache_find_def cache_add_def incomingA_def incomingB_def)


end
